theory Spec2Isabelle
  imports Complex_Main "HOL-Library.Log_Nat"
begin

section \<open>Data model (types.ts)\<close>

text \<open>
  The enums of \<^verbatim>\<open>types.ts\<close> become datatypes, the interfaces become records. An optional
  field (\<^verbatim>\<open>options?\<close>, \<^verbatim>\<open>correctAnswerIndex?\<close>, ...) is an \<open>option\<close>: \<open>None\<close> is the
  JavaScript value \<^verbatim>\<open>undefined\<close> that reading a missing field gives.
\<close>

datatype Difficulty = EASY | MEDIUM | HARD

datatype Grade = SIX | SEVEN | EIGHT | NINE

datatype QuestionType = MULTIPLE_CHOICE | TRUE_FALSE

record Question =
  id_q :: string
  type_q :: QuestionType
  questionText :: string
  options :: "string list option"
  correctAnswerIndex :: "int option"
  propositions :: "string list option"
  correctAnswersTF :: "bool list option"
  explanation :: string

datatype QuestionTypeSel = FIXED QuestionType | MIXED

record QuizConfig =
  grade :: Grade
  topic :: string
  difficulty :: Difficulty
  questionCount :: int
  questionType :: QuestionTypeSel

text \<open>
  An element of a true/false answer array. The arrays are created as
  \<^verbatim>\<open>[undefined, undefined, undefined, undefined] as any\<close>, so an element is \<^verbatim>\<open>undefined\<close>
  (\<open>Undef\<close>) or a boolean (\<open>Val b\<close>). Writing past the end of a JavaScript array leaves
  holes (\<open>Hole\<close>): \<^verbatim>\<open>forEach\<close> skips them, the spread \<^verbatim>\<open>[...a]\<close> turns them into
  \<^verbatim>\<open>undefined\<close>.
\<close>

datatype slot = Hole | Undef | Val bool

text \<open>
  \<^verbatim>\<open>type UserAnswer = number | boolean[] | null\<close>; at run time a read outside the answer
  array gives \<^verbatim>\<open>undefined\<close> as well. Option indices are array indices, so \<open>int\<close>.
\<close>

datatype UserAnswer = Num int | Arr "slot list" | Null | Undefined

datatype SubmissionReason = reason_normal | reason_cheat

text \<open>
  The score is a JavaScript number, an IEEE 754 double. A finite double is represented by
  its exact rational value (the sign of zero is not kept), next to the special values
  that a division by zero produces. The points summed by the scoring loop are multiples
  of \<open>1/4\<close>, exact as doubles for any JavaScript array (fewer than \<open>2^32\<close> elements); the
  division, the product and the parsed decimal are rounded to the nearest double.
\<close>

datatype jsnum = Fin rat | NaN | PosInfinity | NegInfinity

record QuizState =
  questions :: "Question list"
  userAnswers :: "UserAnswer list"
  currentQuestionIndex :: nat
  isComplete :: bool
  score :: jsnum
  warnings :: nat
  startTime :: int
  endTime :: "int option"
  submissionReason :: "SubmissionReason option"

section \<open>The component state (App)\<close>

datatype View = view_setup | view_loading | view_quiz | view_summary

text \<open>The \<^verbatim>\<open>useState\<close> cells of the component: \<^verbatim>\<open>view\<close>, \<^verbatim>\<open>config\<close>, \<^verbatim>\<open>quizState\<close>,
  \<^verbatim>\<open>elapsedTime\<close>. Every handler takes the state and returns the new one.\<close>

record App =
  view :: View
  config :: QuizConfig
  quizState :: QuizState
  elapsedTime :: nat

datatype error = TypeError

subsection \<open>JavaScript arrays and numbers\<close>

text \<open>\<^verbatim>\<open>a[i]\<close> on the answer array: \<^verbatim>\<open>undefined\<close> outside the array.\<close>

definition answerAt :: "UserAnswer list \<Rightarrow> nat \<Rightarrow> UserAnswer" where
  "answerAt as idx = (if idx < length as then as ! idx else Undefined)"

text \<open>\<^verbatim>\<open>correctTF[i]\<close>: \<open>None\<close> is \<^verbatim>\<open>undefined\<close>, outside the key.\<close>

definition keyAt :: "bool list \<Rightarrow> nat \<Rightarrow> bool option" where
  "keyAt correctTF i = (if i < length correctTF then Some (correctTF ! i) else None)"

text \<open>\<^verbatim>\<open>a[i] = v\<close> on a copy: in range it overwrites, past the end JavaScript extends the
  array and the skipped positions are filled with \<open>pad\<close>.\<close>

definition arraySet :: "'a \<Rightarrow> 'a list \<Rightarrow> nat \<Rightarrow> 'a \<Rightarrow> 'a list" where
  "arraySet pad xs i v =
     (if i < length xs then xs[i := v] else xs @ replicate (i - length xs) pad @ [v])"

text \<open>The spread \<^verbatim>\<open>[...currentAns]\<close> of a true/false array: holes become \<^verbatim>\<open>undefined\<close>.\<close>

definition spreadTF :: "slot list \<Rightarrow> slot list" where
  "spreadTF us = map (\<lambda>v. if v = Hole then Undef else v) us"

text \<open>\<^verbatim>\<open>ans === q.correctAnswerIndex\<close>: strict equality of an answer and an optional number.\<close>

fun strictEqIndex :: "UserAnswer \<Rightarrow> int option \<Rightarrow> bool" where
  "strictEqIndex (Num a) (Some c) = (a = c)"
| "strictEqIndex Undefined None = True"
| "strictEqIndex _ _ = False"

text \<open>\<^verbatim>\<open>val === correctTF[i]\<close>: strict equality of an array element and a key entry.\<close>

fun strictEqTF :: "slot \<Rightarrow> bool option \<Rightarrow> bool" where
  "strictEqTF (Val b) (Some c) = (b = c)"
| "strictEqTF Undef None = True"
| "strictEqTF _ _ = False"

text \<open>
  The binade of a positive rational: the \<open>e\<close> with \<open>2^e \<le> x < 2^(e+1)\<close>, read off the
  bit length of the integer part, or of the integer part of the reciprocal.
\<close>

definition binade :: "rat \<Rightarrow> int" where
  "binade x = (if 1 \<le> x then bitlen \<lfloor>x\<rfloor> - 1 else - bitlen (\<lceil>1 / x\<rceil> - 1))"

text \<open>The nearest integer, a tie going to the even one.\<close>

definition roundHalfEven :: "rat \<Rightarrow> int" where
  "roundHalfEven y =
     (let f = \<lfloor>y\<rfloor>; r = y - of_int f
      in if r < 1 / 2 then f else if 1 / 2 < r then f + 1 else if even f then f else f + 1)"

text \<open>The distance between neighbouring doubles around \<open>x \<noteq> 0\<close>: 53 significant bits, and
  the fixed spacing \<open>2^-1074\<close> of the subnormal range below \<open>2^-1022\<close>.\<close>

definition ulp :: "rat \<Rightarrow> rat" where
  "ulp x = 2 powi (max (binade \<bar>x\<bar>) (- 1022) - 52)"

text \<open>The double that an exact result is rounded to (round to nearest, ties to even);
  a result that rounds to \<open>2^1024\<close> or beyond overflows to an infinity.\<close>

definition toDouble :: "rat \<Rightarrow> jsnum" where
  "toDouble x =
     (if x = 0 then Fin 0
      else
        let y = of_int (roundHalfEven (x / ulp x)) * ulp x
        in if 2 powi 1024 \<le> \<bar>y\<bar> then (if 0 < x then PosInfinity else NegInfinity) else Fin y)"

text \<open>\<^verbatim>\<open>a / b\<close> on finite numbers.\<close>

definition js_div :: "rat \<Rightarrow> rat \<Rightarrow> jsnum" where
  "js_div a b =
     (if b = 0 then (if a = 0 then NaN else if 0 < a then PosInfinity else NegInfinity)
      else toDouble (a / b))"

text \<open>\<^verbatim>\<open>x * 10\<close>.\<close>

fun js_times10 :: "jsnum \<Rightarrow> jsnum" where
  "js_times10 (Fin x) = toDouble (x * 10)"
| "js_times10 NaN = NaN"
| "js_times10 PosInfinity = PosInfinity"
| "js_times10 NegInfinity = NegInfinity"

text \<open>
  \<^verbatim>\<open>parseFloat(x.toFixed(2))\<close>. \<^verbatim>\<open>toFixed\<close> works on the exact value of the double: it takes
  the integer \<open>n\<close> with \<open>n / 100\<close> nearest to \<open>\<bar>x\<bar>\<close>, the larger one on a tie, and keeps
  the sign; \<^verbatim>\<open>parseFloat\<close> reads the decimal back as the nearest double. From \<open>10^21\<close> on
  and for the special values \<^verbatim>\<open>toFixed\<close> prints the number itself.
\<close>

fun parseFloat_toFixed2 :: "jsnum \<Rightarrow> jsnum" where
  "parseFloat_toFixed2 (Fin x) =
     (if 10 ^ 21 \<le> \<bar>x\<bar> then Fin x
      else if x < 0 then toDouble (- (of_int \<lfloor>(- x) * 100 + 1 / 2\<rfloor> / 100))
      else toDouble (of_int \<lfloor>x * 100 + 1 / 2\<rfloor> / 100))"
| "parseFloat_toFixed2 NaN = NaN"
| "parseFloat_toFixed2 PosInfinity = PosInfinity"
| "parseFloat_toFixed2 NegInfinity = NegInfinity"

section \<open>The handlers\<close>

subsection \<open>handleStartQuiz\<close>

text \<open>The answer slot a question starts with.\<close>

definition initialAnswer :: "Question \<Rightarrow> UserAnswer" where
  "initialAnswer q =
     (if type_q q = TRUE_FALSE then Arr [Undef, Undef, Undef, Undef] else Num (- 1))"

text \<open>
  \<open>generated\<close> is what the awaited \<^verbatim>\<open>generateMathQuestions\<close> call gives: \<open>Some questions\<close>,
  or \<open>None\<close> when it throws. \<open>now\<close> is \<^verbatim>\<open>Date.now()\<close>.
\<close>

definition handleStartQuiz :: "Question list option \<Rightarrow> int \<Rightarrow> App \<Rightarrow> App" where
  "handleStartQuiz generated now s =
     (case generated of
        None \<Rightarrow> s\<lparr>view := view_setup\<rparr>
      | Some qs \<Rightarrow>
          s\<lparr>quizState :=
               \<lparr>questions = qs,
                userAnswers = map initialAnswer qs,
                currentQuestionIndex = 0,
                isComplete = False,
                score = Fin 0,
                warnings = 0,
                startTime = now,
                endTime = None,
                submissionReason = Some reason_normal\<rparr>,
            elapsedTime := 0,
            view := view_quiz\<rparr>)"

subsection \<open>handleMCSelect, handleTFSelect\<close>

definition handleMCSelect :: "int \<Rightarrow> App \<Rightarrow> App" where
  "handleMCSelect optionIndex s =
     (if isComplete (quizState s) then s
      else
        let prev = quizState s;
            newAnswers = arraySet Undefined (userAnswers prev) (currentQuestionIndex prev)
                           (Num optionIndex)
        in s\<lparr>quizState := prev\<lparr>userAnswers := newAnswers\<rparr>\<rparr>)"

text \<open>
  \<^verbatim>\<open>newAnswers[i] as boolean[] || [undefined, undefined, undefined, undefined]\<close>: the
  default array replaces a falsy slot (\<^verbatim>\<open>undefined\<close>, \<^verbatim>\<open>null\<close>, \<open>0\<close>); a non-zero number is
  truthy and is kept, and spreading it throws a TypeError (a number is not iterable).
\<close>

fun currentAnsTF :: "UserAnswer \<Rightarrow> error + slot list" where
  "currentAnsTF (Arr us) = Inr us"
| "currentAnsTF (Num n) = (if n = 0 then Inr [Undef, Undef, Undef, Undef] else Inl TypeError)"
| "currentAnsTF Null = Inr [Undef, Undef, Undef, Undef]"
| "currentAnsTF Undefined = Inr [Undef, Undef, Undef, Undef]"

definition handleTFSelect :: "nat \<Rightarrow> bool \<Rightarrow> App \<Rightarrow> error + App" where
  "handleTFSelect propIndex v s =
     (if isComplete (quizState s) then Inr s
      else
        let prev = quizState s in
        case currentAnsTF (answerAt (userAnswers prev) (currentQuestionIndex prev)) of
          Inl e \<Rightarrow> Inl e
        | Inr currentAns \<Rightarrow>
            let updatedTF = arraySet Hole (spreadTF currentAns) propIndex (Val v);
                newAnswers = arraySet Undefined (userAnswers prev) (currentQuestionIndex prev)
                               (Arr updatedTF)
            in Inr (s\<lparr>quizState := prev\<lparr>userAnswers := newAnswers\<rparr>\<rparr>))"

subsection \<open>finishQuiz\<close>

text \<open>The inner loop \<^verbatim>\<open>userTF.forEach((val, i) => { if (val === correctTF[i]) correctProps++; })\<close>,
  with the running index and counter. \<^verbatim>\<open>forEach\<close> does not call back on a hole.\<close>

fun tfLoop :: "slot list \<Rightarrow> bool list \<Rightarrow> nat \<Rightarrow> nat \<Rightarrow> nat" where
  "tfLoop [] correctTF i correctProps = correctProps"
| "tfLoop (val # rest) correctTF i correctProps =
     tfLoop rest correctTF (Suc i)
       (if val \<noteq> Hole \<and> strictEqTF val (keyAt correctTF i) then Suc correctProps
        else correctProps)"

text \<open>What one pass of the outer loop body adds to \<^verbatim>\<open>totalPoints\<close>.\<close>

definition questionPoints :: "Question \<Rightarrow> UserAnswer \<Rightarrow> rat" where
  "questionPoints q ans =
     (case type_q q of
        MULTIPLE_CHOICE \<Rightarrow> (if strictEqIndex ans (correctAnswerIndex q) then 1 else 0)
      | TRUE_FALSE \<Rightarrow>
          (let correctTF = (case correctAnswersTF q of Some k \<Rightarrow> k | None \<Rightarrow> []);
               correctProps = (case ans of Arr userTF \<Rightarrow> tfLoop userTF correctTF 0 0 | _ \<Rightarrow> 0)
           in of_nat correctProps * (1 / 4)))"

text \<open>The outer loop \<^verbatim>\<open>prev.questions.forEach((q, idx) => ...)\<close> with its index and the
  accumulator \<^verbatim>\<open>totalPoints\<close>.\<close>

fun pointsLoop :: "Question list \<Rightarrow> UserAnswer list \<Rightarrow> nat \<Rightarrow> rat \<Rightarrow> rat" where
  "pointsLoop [] as idx totalPoints = totalPoints"
| "pointsLoop (q # qs) as idx totalPoints =
     pointsLoop qs as (Suc idx) (totalPoints + questionPoints q (answerAt as idx))"

definition totalPointsOf :: "Question list \<Rightarrow> UserAnswer list \<Rightarrow> rat" where
  "totalPointsOf qs as = pointsLoop qs as 0 0"

text \<open>\<^verbatim>\<open>parseFloat(((totalPoints / maxPossiblePoints) * 10).toFixed(2))\<close>.\<close>

definition finalScoreOf :: "Question list \<Rightarrow> UserAnswer list \<Rightarrow> jsnum" where
  "finalScoreOf qs as =
     (let totalPoints = totalPointsOf qs as;
          maxPossiblePoints = length qs;
          finalScore = js_times10 (js_div totalPoints (of_nat maxPossiblePoints))
      in parseFloat_toFixed2 finalScore)"

definition finishQuiz :: "SubmissionReason \<Rightarrow> int \<Rightarrow> App \<Rightarrow> App" where
  "finishQuiz reason now s =
     (let prev = quizState s in
      s\<lparr>quizState :=
           prev\<lparr>isComplete := True,
                score := finalScoreOf (questions prev) (userAnswers prev),
                endTime := Some now,
                submissionReason := Some reason\<rparr>,
        view := view_summary\<rparr>)"

subsection \<open>Navigation, reset, the visibility handler\<close>

text \<open>\<^verbatim>\<open>questions.length - 1\<close> is \<open>-1\<close> on an empty list, so the comparison is on \<open>int\<close>.\<close>

definition handleNextQuestion :: "int \<Rightarrow> App \<Rightarrow> App" where
  "handleNextQuestion now s =
     (if int (currentQuestionIndex (quizState s)) < int (length (questions (quizState s))) - 1
      then s\<lparr>quizState :=
               (quizState s)\<lparr>currentQuestionIndex := currentQuestionIndex (quizState s) + 1\<rparr>\<rparr>
      else finishQuiz reason_normal now s)"

definition handlePrevQuestion :: "App \<Rightarrow> App" where
  "handlePrevQuestion s =
     (if currentQuestionIndex (quizState s) > 0
      then s\<lparr>quizState :=
               (quizState s)\<lparr>currentQuestionIndex := currentQuestionIndex (quizState s) - 1\<rparr>\<rparr>
      else s)"

definition resetApp :: "App \<Rightarrow> App" where
  "resetApp s = s\<lparr>view := view_setup\<rparr>"

text \<open>\<open>hidden\<close> is \<^verbatim>\<open>document.hidden\<close> when the event fires.\<close>

definition handleVisibilityChange :: "bool \<Rightarrow> int \<Rightarrow> App \<Rightarrow> App" where
  "handleVisibilityChange hidden now s =
     (if hidden \<and> view s = view_quiz then finishQuiz reason_cheat now s else s)"

section \<open>Notions used to state the properties\<close>

text \<open>The JavaScript value of \<^verbatim>\<open>q.correctAnswerIndex\<close>: the number, or \<^verbatim>\<open>undefined\<close> when the
  field is missing. On these values \<^verbatim>\<open>===\<close> is equality.\<close>
definition indexValue :: "int option \<Rightarrow> UserAnswer" where
  "indexValue c = (case c of Some n \<Rightarrow> Num n | None \<Rightarrow> Undefined)"


subsection \<open>Example sessions\<close>

text \<open>The initial values of the \<^verbatim>\<open>useState\<close> cells (the topic is written without its
  diacritics).\<close>
definition initialApp :: App where
  "initialApp =
     \<lparr>view = view_setup,
      config = \<lparr>grade = NINE, topic = ''Phuong trinh bac hai'', difficulty = MEDIUM,
                questionCount = 5, questionType = MIXED\<rparr>,
      quizState = \<lparr>questions = [], userAnswers = [], currentQuestionIndex = 0,
                   isComplete = False, score = Fin 0, warnings = 0, startTime = 0,
                   endTime = None, submissionReason = Some reason_normal\<rparr>,
      elapsedTime = 0\<rparr>"

definition mcQuestion :: "int \<Rightarrow> Question" where
  "mcQuestion c =
     \<lparr>id_q = ''mc'', type_q = MULTIPLE_CHOICE, questionText = ''2 + 2 = ?'',
      options = Some [''1'', ''2'', ''4'', ''8''], correctAnswerIndex = Some c,
      propositions = None, correctAnswersTF = None, explanation = ''''\<rparr>"

definition tfQuestion :: "string list \<Rightarrow> bool list option \<Rightarrow> Question" where
  "tfQuestion props key =
     \<lparr>id_q = ''tf'', type_q = TRUE_FALSE, questionText = ''Which hold?'',
      options = None, correctAnswerIndex = None,
      propositions = Some props, correctAnswersTF = key, explanation = ''''\<rparr>"

definition tfQuestion4 :: Question where
  "tfQuestion4 = tfQuestion [''a'', ''b'', ''c'', ''d''] (Some [True, False, True, False])"

text \<open>Four questions, the third in focus: a right and a wrong choice, a true/false
  question answered in full, and one with two sub-slots right, one wrong, one open.\<close>
definition exampleQuiz :: App where
  "exampleQuiz =
     (handleStartQuiz (Some [mcQuestion 2, mcQuestion 1, tfQuestion4, tfQuestion4]) 1000 initialApp)
       \<lparr>quizState :=
          (quizState (handleStartQuiz (Some [mcQuestion 2, mcQuestion 1, tfQuestion4, tfQuestion4]) 1000 initialApp))
            \<lparr>userAnswers := [Num 2, Num 3, Arr [Val True, Val False, Val True, Val False],
                              Arr [Val True, Val True, Undef, Val False]],
             currentQuestionIndex := 2\<rparr>\<rparr>"

text \<open>A quiz of one question, just started.\<close>
definition singleQuiz :: App where
  "singleQuiz = handleStartQuiz (Some [mcQuestion 2]) 1000 initialApp"

text \<open>A quiz of a hundred questions: a true/false question with three sub-slots right
  and one open, and ninety-nine multiple-choice questions left unanswered.\<close>

definition hundredQuiz :: App where
  "hundredQuiz =
     (handleStartQuiz (Some (tfQuestion4 # replicate 99 (mcQuestion 2))) 1000 initialApp)
       \<lparr>quizState :=
          (quizState (handleStartQuiz (Some (tfQuestion4 # replicate 99 (mcQuestion 2))) 1000 initialApp))
            \<lparr>userAnswers := Arr [Val True, Val False, Val True, Undef] # replicate 99 (Num (- 1))\<rparr>\<rparr>"

section \<open>Auxiliary facts\<close>
lemmas example_defs =
  exampleQuiz_def singleQuiz_def hundredQuiz_def initialApp_def mcQuestion_def
  tfQuestion4_def tfQuestion_def

lemmas handler_defs =
  handleStartQuiz_def handleMCSelect_def handleTFSelect_def finishQuiz_def
  handleNextQuestion_def handlePrevQuestion_def resetApp_def handleVisibilityChange_def

lemmas scoring_defs =
  finalScoreOf_def totalPointsOf_def questionPoints_def answerAt_def keyAt_def js_div_def
  initialAnswer_def

subsection \<open>Rounding to a double\<close>

lemma binade_bounds:
  assumes "0 < x"
  shows "2 powi binade x \<le> x \<and> x < 2 powi (binade x + 1)"
proof (cases "1 \<le> x")
  case True
  then have pos: "0 < \<lfloor>x\<rfloor>" by linarith
  let ?b = "bitlen \<lfloor>x\<rfloor>"
  from bitlen_bounds [OF pos] have lo: "2 ^ nat (?b - 1) \<le> \<lfloor>x\<rfloor>" and hi: "\<lfloor>x\<rfloor> < 2 ^ nat ?b"
    by auto
  have b1: "1 \<le> ?b" using pos by (auto simp: bitlen_alt_def)
  have "(of_int (2 ^ nat (?b - 1)) :: rat) \<le> of_int \<lfloor>x\<rfloor>" using lo by (simp only: of_int_le_iff)
  then have l: "(2::rat) ^ nat (?b - 1) \<le> x" by (simp add: le_floor_iff)
  have "\<lfloor>x\<rfloor> + 1 \<le> 2 ^ nat ?b" using hi by simp
  then have "(of_int (\<lfloor>x\<rfloor> + 1) :: rat) \<le> of_int (2 ^ nat ?b)" by (simp only: of_int_le_iff)
  then have h: "x < (2::rat) ^ nat ?b" by simp linarith
  have e1: "(2::rat) powi (?b - 1) = 2 ^ nat (?b - 1)" using b1 by (simp add: power_int_def)
  have e2: "(2::rat) powi (?b - 1 + 1) = 2 ^ nat ?b" using b1 by (simp add: power_int_def)
  show ?thesis using True l h e1 e2 by (simp add: binade_def)
next
  case False
  then have x1: "x < 1" by simp
  let ?c = "\<lceil>1 / x\<rceil>"
  have inv: "1 < 1 / x" using assms x1 by simp
  then have c2: "2 \<le> ?c" by linarith
  then have pos: "0 < ?c - 1" by simp
  let ?b = "bitlen (?c - 1)"
  from bitlen_bounds [OF pos] have lo: "2 ^ nat (?b - 1) \<le> ?c - 1" and hi: "?c - 1 < 2 ^ nat ?b"
    by auto
  have b1: "1 \<le> ?b" using pos by (auto simp: bitlen_alt_def)
  \<comment> \<open>upper integer bound: the ceiling is at most \<open>2 ^ b\<close>, so is \<open>1 / x\<close>\<close>
  have "?c \<le> 2 ^ nat ?b" using hi by simp
  then have "1 / x \<le> of_int (2 ^ nat ?b)" by (simp only: ceiling_le_iff)
  then have u: "1 / x \<le> (2::rat) ^ nat ?b" by simp
  \<comment> \<open>lower integer bound: \<open>2 ^ (b - 1) < ceiling\<close>, so \<open>2 ^ (b - 1) < 1 / x\<close>\<close>
  have "2 ^ nat (?b - 1) < ?c" using lo by simp
  then have "of_int (2 ^ nat (?b - 1)) < 1 / x" by (simp only: less_ceiling_iff)
  then have l: "(2::rat) ^ nat (?b - 1) < 1 / x" by simp
  have p: "(0::rat) < 2 ^ nat ?b" "(0::rat) < 2 ^ nat (?b - 1)" by simp_all
  have lo': "1 / (2::rat) ^ nat ?b \<le> x"
    using u assms p by (simp add: field_simps)
  have hi': "x < 1 / (2::rat) ^ nat (?b - 1)"
    using l assms p by (simp add: field_simps)
  have e1: "(2::rat) powi (- ?b) = 1 / 2 ^ nat ?b"
    using b1 by (simp add: power_int_def field_simps)
  have e2: "(2::rat) powi (- ?b + 1) = 1 / 2 ^ nat (?b - 1)"
  proof -
    have "- ?b + 1 = - (?b - 1)" by simp
    moreover have "(2::rat) powi (- (?b - 1)) = 1 / 2 ^ nat (?b - 1)"
      using b1 by (simp add: power_int_def field_simps)
    ultimately show ?thesis by simp
  qed
  show ?thesis using False lo' hi' e1 e2 by (simp add: binade_def)
qed

lemma powi2_strict_mono: "a < b \<Longrightarrow> (2::rat) powi a < 2 powi b"
  by (rule power_int_strict_increasing) simp_all

lemma powi2_mono: "a \<le> b \<Longrightarrow> (2::rat) powi a \<le> 2 powi b"
  by (rule power_int_increasing) simp_all

lemma binade_eqI:
  assumes "2 powi e \<le> x" "x < 2 powi (e + 1)"
  shows "binade x = e"
proof -
  have pos: "0 < x" using assms(1) by (rule less_le_trans [rotated]) simp
  note b = binade_bounds [OF pos]
  have "\<not> binade x < e"
  proof
    assume "binade x < e"
    then have "binade x + 1 \<le> e" by simp
    then have "(2::rat) powi (binade x + 1) \<le> 2 powi e" by (rule powi2_mono)
    then show False using b assms(1) by linarith
  qed
  moreover have "\<not> e < binade x"
  proof
    assume "e < binade x"
    then have "e + 1 \<le> binade x" by simp
    then have "(2::rat) powi (e + 1) \<le> 2 powi binade x" by (rule powi2_mono)
    then show False using b assms(2) by linarith
  qed
  ultimately show ?thesis by simp
qed


lemma roundHalfEven_error: "\<bar>of_int (roundHalfEven y) - y\<bar> \<le> 1 / 2"
proof -
  have "of_int \<lfloor>y\<rfloor> \<le> y" "y < of_int \<lfloor>y\<rfloor> + 1" by linarith+
  then show ?thesis by (auto simp: roundHalfEven_def Let_def)
qed

lemma roundHalfEven_eqI:
  assumes "\<bar>y - of_int k\<bar> < 1 / 2"
  shows "roundHalfEven y = k"
proof -
  have "\<bar>of_int (roundHalfEven y) - (of_int k :: rat)\<bar> < 1"
    using roundHalfEven_error [of y] assms by linarith
  then have "\<bar>(of_int (roundHalfEven y - k) :: rat)\<bar> < of_int 1" by simp
  then have "\<bar>roundHalfEven y - k\<bar> < 1" by (simp only: of_int_abs [symmetric] of_int_less_iff)
  then show ?thesis by simp
qed

lemma roundHalfEven_of_int: "roundHalfEven (of_int k) = k"
  by (rule roundHalfEven_eqI) simp



lemma ulp_pos: "0 < ulp x"
  by (simp add: ulp_def)

lemma abs_scale:
  fixes u :: rat
  assumes "0 < u"
  shows "\<bar>a - b / u\<bar> * u = \<bar>a * u - b\<bar>" and "\<bar>b / u - a\<bar> * u = \<bar>b - a * u\<bar>"
proof -
  have e: "(a - b / u) * u = a * u - b" using assms by (simp add: left_diff_distrib)
  have "\<bar>a - b / u\<bar> * u = \<bar>a - b / u\<bar> * \<bar>u\<bar>" using assms by simp
  also have "\<dots> = \<bar>(a - b / u) * u\<bar>" by (simp only: abs_mult)
  finally show 1: "\<bar>a - b / u\<bar> * u = \<bar>a * u - b\<bar>" by (simp only: e)
  have "\<bar>b / u - a\<bar> = \<bar>a - b / u\<bar>" by (rule abs_minus_commute)
  moreover have "\<bar>b - a * u\<bar> = \<bar>a * u - b\<bar>" by (rule abs_minus_commute)
  ultimately show "\<bar>b / u - a\<bar> * u = \<bar>b - a * u\<bar>" using 1 by simp
qed


lemma toDouble_eqI:
  assumes "2 powi e \<le> x" "x < 2 powi (e + 1)" "- 1022 \<le> e" "e \<le> 1022"
    and "\<bar>x / 2 powi (e - 52) - of_int k\<bar> < 1 / 2"
  shows "toDouble x = Fin (of_int k * 2 powi (e - 52))"
proof -
  have pos: "0 < x" using assms(1) by (rule less_le_trans [rotated]) simp
  have b: "binade \<bar>x\<bar> = e" using assms(1,2) pos by (simp add: binade_eqI)
  have u: "ulp x = 2 powi (e - 52)" using b assms(3) by (simp add: ulp_def)
  have r: "roundHalfEven (x / ulp x) = k" unfolding u using assms(5) by (rule roundHalfEven_eqI)
  have upos: "(0::rat) < 2 powi (e - 52)" by simp
  have "\<bar>x / 2 powi (e - 52) - of_int k\<bar> * 2 powi (e - 52) < 1 / 2 * 2 powi (e - 52)"
    using assms(5) upos by (rule mult_strict_right_mono)
  moreover have "\<bar>x / 2 powi (e - 52) - of_int k\<bar> * 2 powi (e - 52) =
                 \<bar>x - of_int k * 2 powi (e - 52)\<bar>"
    using upos by (rule abs_scale)
  ultimately have near: "\<bar>x - of_int k * 2 powi (e - 52)\<bar> < 1 / 2 * 2 powi (e - 52)" by simp
  have "(2::rat) powi (e + 1) \<le> 2 powi 1023" using assms(4) by (intro powi2_mono) simp
  then have x1023: "x < 2 powi 1023" using assms(2) by simp
  have "(2::rat) powi (e - 52) \<le> 2 powi 1023" using assms(4) by (intro powi2_mono) simp
  then have "of_int k * 2 powi (e - 52) < 2 powi 1023 + 1 / 2 * (2::rat) powi 1023"
    using near x1023 by linarith
  also have "\<dots> < (2::rat) powi 1024" by simp
  finally have hi: "of_int k * 2 powi (e - 52) < (2::rat) powi 1024" .
  have "0 < x / 2 powi (e - 52)" using pos upos by (rule divide_pos_pos)
  then have "- 1 < (of_int k :: rat)" using assms(5) by linarith
  then have "(of_int (- 1) :: rat) < of_int k" by simp
  then have "- 1 < k" by (simp only: of_int_less_iff)
  then have "0 \<le> k" by simp
  then have lo: "0 \<le> of_int k * (2::rat) powi (e - 52)" by simp
  show ?thesis
    using pos r u hi lo by (simp add: toDouble_def Let_def)
qed

text \<open>The doubles of the examples.\<close>

lemma toDouble_1: "toDouble 1 = Fin 1"
  using toDouble_eqI [of 0 1 "2 ^ 52"] by (simp add: power_int_minus)

lemma toDouble_10: "toDouble 10 = Fin 10"
  using toDouble_eqI [of 3 10 "10 * 2 ^ 49"] by (simp add: power_int_minus)

lemma toDouble_5_8: "toDouble (5 / 8) = Fin (5 / 8)"
  using toDouble_eqI [of "- 1" "5 / 8" "5 * 2 ^ 50"] by (simp add: power_int_minus)

lemma toDouble_25_4: "toDouble (25 / 4) = Fin (25 / 4)"
  using toDouble_eqI [of 2 "25 / 4" "25 * 2 ^ 48"] by (simp add: power_int_minus)





subsection \<open>The scoring loops\<close>
lemma pointsLoop_acc: "pointsLoop qs as idx tp = tp + pointsLoop qs as idx 0"
proof (induction qs arbitrary: idx tp)
  case Nil
  show ?case by simp
next
  case (Cons q qs)
  have "pointsLoop (q # qs) as idx tp = pointsLoop qs as (Suc idx) (tp + questionPoints q (answerAt as idx))"
    by simp
  also have "\<dots> = (tp + questionPoints q (answerAt as idx)) + pointsLoop qs as (Suc idx) 0"
    by (rule Cons.IH)
  also have "\<dots> = tp + pointsLoop qs as (Suc idx) (0 + questionPoints q (answerAt as idx))"
    using Cons.IH [of "Suc idx" "0 + questionPoints q (answerAt as idx)"] by simp
  finally show ?case by simp
qed

lemma pointsLoop_append:
  "pointsLoop (xs @ ys) as idx tp = pointsLoop ys as (idx + length xs) (pointsLoop xs as idx tp)"
  by (induction xs arbitrary: idx tp) simp_all

lemma totalPointsOf_take_Suc:
  assumes "i < length qs"
  shows "totalPointsOf (take (Suc i) qs) as =
         totalPointsOf (take i qs) as + questionPoints (qs ! i) (answerAt as i)"
proof -
  have "take (Suc i) qs = take i qs @ [qs ! i]"
    using assms by (rule take_Suc_conv_app_nth)
  then show ?thesis
    using assms by (simp add: totalPointsOf_def pointsLoop_append min_def)
qed

lemma totalPointsOf_sum:
  "totalPointsOf qs as = (\<Sum>i<length qs. questionPoints (qs ! i) (answerAt as i))"
proof (induction qs rule: rev_induct)
  case Nil
  show ?case by (simp add: totalPointsOf_def)
next
  case (snoc q qs)
  have "totalPointsOf (qs @ [q]) as = totalPointsOf qs as + questionPoints q (answerAt as (length qs))"
    by (simp add: totalPointsOf_def pointsLoop_append)
  then show ?case using snoc.IH by (simp add: nth_append)
qed

lemma tfLoop_append:
  "tfLoop (us @ vs) ct i c = tfLoop vs ct (i + length us) (tfLoop us ct i c)"
  by (induction us arbitrary: i c) simp_all

lemma card_less_Suc:
  "card {k. k < Suc n \<and> Q k} = card {k. k < n \<and> Q k} + (if Q n then 1 else 0)"
proof (cases "Q n")
  case True
  then have "{k. k < Suc n \<and> Q k} = insert n {k. k < n \<and> Q k}"
    by (auto simp: less_Suc_eq)
  then show ?thesis using True by simp
next
  case False
  then have "{k. k < Suc n \<and> Q k} = {k. k < n \<and> Q k}"
    by (auto simp: less_Suc_eq)
  then show ?thesis using False by simp
qed

lemma tfLoop_count:
  "tfLoop us ct i c =
     c + card {k. k < length us \<and> us ! k \<noteq> Hole \<and> strictEqTF (us ! k) (keyAt ct (i + k))}"
proof (induction us rule: rev_induct)
  case Nil
  show ?case by simp
next
  case (snoc v us)
  let ?Q = "\<lambda>k. (us @ [v]) ! k \<noteq> Hole \<and> strictEqTF ((us @ [v]) ! k) (keyAt ct (i + k))"
  let ?n = "length us"
  have old: "{k. k < ?n \<and> ?Q k} =
             {k. k < ?n \<and> us ! k \<noteq> Hole \<and> strictEqTF (us ! k) (keyAt ct (i + k))}"
    by (rule Collect_cong) (simp add: nth_append cong: conj_cong)
  have "card {k. k < Suc ?n \<and> ?Q k} = card {k. k < ?n \<and> ?Q k} + (if ?Q ?n then 1 else 0)"
    by (rule card_less_Suc)
  then show ?case
    using snoc.IH by (simp add: tfLoop_append old)
qed


lemma card_less_4:
  "card {k. k < (4::nat) \<and> Q k} =
     (if Q 0 then 1 else 0) + (if Q 1 then 1 else 0) + (if Q 2 then 1 else 0) + (if Q 3 then 1 else 0)"
proof -
  have e: "{k. k < (0::nat) \<and> Q k} = {}" by simp
  have "card {k. k < Suc (Suc (Suc (Suc 0))) \<and> Q k} =
        (if Q 0 then 1 else 0) + (if Q (Suc 0) then 1 else 0) + (if Q (Suc (Suc 0)) then 1 else 0)
        + (if Q (Suc (Suc (Suc 0))) then 1 else 0)"
    unfolding card_less_Suc e by simp
  then show ?thesis by (simp add: eval_nat_numeral)
qed

lemma strictEqTF_Some: "strictEqTF x (Some b) = (x = Val b)"
  by (cases x) auto

lemma strictEqIndex_indexValue: "strictEqIndex a c = (a = indexValue c)"
  by (cases a; cases c) (auto simp: indexValue_def)

lemma questionPoints_TF_key:
  assumes "type_q q = TRUE_FALSE" "correctAnswersTF q = Some ct" "length us \<le> length ct"
  shows "questionPoints q (Arr us) = of_nat (card {k. k < length us \<and> us ! k = Val (ct ! k)}) * (1 / 4)"
proof -
  have "{k. k < length us \<and> us ! k \<noteq> Hole \<and> strictEqTF (us ! k) (keyAt ct (0 + k))} =
        {k. k < length us \<and> us ! k = Val (ct ! k)}"
    using assms(3) by (auto simp: keyAt_def strictEqTF_Some)
  then show ?thesis
    using assms(1,2) by (simp add: questionPoints_def tfLoop_count)
qed

lemma questionPoints_TF_not_array:
  "type_q q = TRUE_FALSE \<Longrightarrow> (\<forall>us. a \<noteq> Arr us) \<Longrightarrow> questionPoints q a = 0"
  by (cases a) (simp_all add: questionPoints_def)












text \<open>The scores of the examples.\<close>

lemma exampleQuiz_total:
  "totalPointsOf (questions (quizState exampleQuiz)) (userAnswers (quizState exampleQuiz)) = 5 / 2"
  by (simp add: exampleQuiz_def handleStartQuiz_def totalPointsOf_def questionPoints_def
      mcQuestion_def tfQuestion4_def tfQuestion_def answerAt_def keyAt_def)

lemma exampleQuiz_finalScore:
  "finalScoreOf (questions (quizState exampleQuiz)) (userAnswers (quizState exampleQuiz)) = Fin (25 / 4)"
proof -
  have l: "length (questions (quizState exampleQuiz)) = 4"
    by (simp add: exampleQuiz_def handleStartQuiz_def)
  have f: "\<lfloor>1251 / 2 :: rat\<rfloor> = 625" by (simp add: floor_eq_iff)
  show ?thesis
    by (simp add: finalScoreOf_def Let_def exampleQuiz_total l js_div_def toDouble_5_8 toDouble_25_4 f)
qed



subsection \<open>Answer recording and navigation\<close>
lemma spreadTF_no_hole: "Hole \<notin> set us \<Longrightarrow> spreadTF us = us"
  by (induction us) (auto simp: spreadTF_def)

lemma prev_next_step:
  assumes "2 \<le> length (questions (quizState s))"
    and "currentQuestionIndex (quizState s) < length (questions (quizState s))"
  shows "handleNextQuestion now (handlePrevQuestion s) =
         s\<lparr>quizState := (quizState s)\<lparr>currentQuestionIndex := max 1 (currentQuestionIndex (quizState s))\<rparr>\<rparr>"
  using assms by (cases "currentQuestionIndex (quizState s)") (simp_all add: handleNextQuestion_def handlePrevQuestion_def max_def)

lemma prev_next_funpow:
  assumes "2 \<le> length (questions (quizState s))"
    and "currentQuestionIndex (quizState s) < length (questions (quizState s))"
  shows "((\<lambda>t. handleNextQuestion now (handlePrevQuestion t)) ^^ n) s =
         s\<lparr>quizState := (quizState s)\<lparr>currentQuestionIndex :=
             (if n = 0 then currentQuestionIndex (quizState s) else max 1 (currentQuestionIndex (quizState s)))\<rparr>\<rparr>"
proof (induction n)
  case 0
  show ?case by simp
next
  case (Suc n)
  let ?t = "((\<lambda>t. handleNextQuestion now (handlePrevQuestion t)) ^^ n) s"
  have q: "questions (quizState ?t) = questions (quizState s)" by (simp add: Suc.IH)
  have c: "currentQuestionIndex (quizState ?t) < length (questions (quizState s))"
    using assms by (simp add: Suc.IH max_def)
  have "handleNextQuestion now (handlePrevQuestion ?t) =
        ?t\<lparr>quizState := (quizState ?t)\<lparr>currentQuestionIndex := max 1 (currentQuestionIndex (quizState ?t))\<rparr>\<rparr>"
    using prev_next_step [of ?t now] q c assms(1) by simp
  then show ?case by (simp add: Suc.IH max_def)
qed

section \<open>The properties\<close>

text \<open>
  The phases of the specification are the views of the component: \<open>Setup\<close> is
  \<open>view_setup\<close>, \<open>Loading\<close> is \<open>view_loading\<close>, \<open>InProgress\<close> is \<open>view_quiz\<close> and
  \<open>Complete\<close> is \<open>view_summary\<close>; \<^verbatim>\<open>finishQuiz\<close> sets \<open>isComplete\<close> in the same step in
  which it switches to the summary. Events are handled one at a time, each on the state
  the previous one left. The contribution of the question at position \<open>i\<close> is what the
  scoring loop adds to \<^verbatim>\<open>totalPoints\<close> in its pass number \<open>i\<close>: the total after \<open>i + 1\<close>
  questions minus the total after \<open>i\<close>.
\<close>

subsection \<open>C1: partial credit of a true/false question\<close>

text \<open>
  C1. A true/false question at position \<open>i\<close> with a key of four booleans and a stored
  answer of four sub-slots contributes a quarter point for each of the four sub-slots
  \<open>k\<close> whose stored value equals \<open>correctTruths[k]\<close>. A sub-slot that is still
  \<^verbatim>\<open>undefined\<close> equals neither \<open>true\<close> nor \<open>false\<close>, and the contribution is then made up
  by the other three sub-slots alone.
\<close>

theorem C1_true_false_contribution:
  assumes "i < length qs"
    and "type_q (qs ! i) = TRUE_FALSE"
    and "correctAnswersTF (qs ! i) = Some ct" and "length ct = 4"
    and "answerAt as i = Arr us" and "length us = 4"
  shows "totalPointsOf (take (Suc i) qs) as - totalPointsOf (take i qs) as =
           (1 / 4) * of_nat (card {k. k < 4 \<and> us ! k = Val (ct ! k)})
       \<and> (\<forall>k<4. us ! k = Undef \<longrightarrow>
            us ! k \<noteq> Val True \<and> us ! k \<noteq> Val False \<and>
            totalPointsOf (take (Suc i) qs) as - totalPointsOf (take i qs) as =
              (1 / 4) * of_nat (card {j. j < 4 \<and> j \<noteq> k \<and> us ! j = Val (ct ! j)}))"
proof -
  have step: "totalPointsOf (take (Suc i) qs) as - totalPointsOf (take i qs) as =
              questionPoints (qs ! i) (Arr us)"
    using totalPointsOf_take_Suc [OF assms(1), of as] assms(5) by simp
  have pts: "questionPoints (qs ! i) (Arr us) =
             (1 / 4) * of_nat (card {k. k < 4 \<and> us ! k = Val (ct ! k)})"
    using questionPoints_TF_key [OF assms(2,3), of us] assms(4,6) by simp
  have others: "{j. j < 4 \<and> j \<noteq> k \<and> us ! j = Val (ct ! j)} = {j. j < 4 \<and> us ! j = Val (ct ! j)}"
    if "us ! k = Undef" for k
    using that by auto
  show ?thesis
    using step pts others by simp
qed

text \<open>
  C1 at the fourth question of the example session: key \<open>[true, false, true, false]\<close>,
  answer \<open>[true, true, undefined, false]\<close>, two sub-slots right, half a point.
\<close>

theorem C1_witness:
  "(3::nat) < length (questions (quizState exampleQuiz))
   \<and> type_q (questions (quizState exampleQuiz) ! 3) = TRUE_FALSE
   \<and> correctAnswersTF (questions (quizState exampleQuiz) ! 3) = Some [True, False, True, False]
   \<and> answerAt (userAnswers (quizState exampleQuiz)) 3 = Arr [Val True, Val True, Undef, Val False]
   \<and> [Val True, Val True, Undef, Val False] ! 2 = Undef
   \<and> totalPointsOf (take (Suc 3) (questions (quizState exampleQuiz))) (userAnswers (quizState exampleQuiz))
       - totalPointsOf (take 3 (questions (quizState exampleQuiz))) (userAnswers (quizState exampleQuiz))
       = 1 / 2"
proof -
  let ?qs = "questions (quizState exampleQuiz)" and ?as = "userAnswers (quizState exampleQuiz)"
  let ?ct = "[True, False, True, False]" and ?us = "[Val True, Val True, Undef, Val False]"
  have h1: "3 < length ?qs" by (simp add: exampleQuiz_def handleStartQuiz_def)
  have h2: "type_q (?qs ! 3) = TRUE_FALSE"
    by (simp add: exampleQuiz_def handleStartQuiz_def tfQuestion4_def tfQuestion_def)
  have h3: "correctAnswersTF (?qs ! 3) = Some ?ct"
    by (simp add: exampleQuiz_def handleStartQuiz_def tfQuestion4_def tfQuestion_def)
  have h4: "length ?ct = 4" by simp
  have h5: "answerAt ?as 3 = Arr ?us" by (simp add: exampleQuiz_def answerAt_def)
  have h6: "length ?us = 4" by simp
  have c: "card {k. k < 4 \<and> ?us ! k = Val (?ct ! k)} = 2"
    by (simp add: card_less_4)
  show ?thesis
    using C1_true_false_contribution [OF h1 h2 h3 h4 h5 h6] h1 h2 h3 h5 c by simp
qed

subsection \<open>C2: a multiple-choice question is all or nothing\<close>

text \<open>
  C2. A multiple-choice question at position \<open>i\<close> contributes one point when the stored
  answer equals the question's \<open>correctAnswerIndex\<close>, and nothing for any other value.
  The unanswered sentinel \<open>-1\<close> that the slot starts with contributes nothing whenever
  the correct index is one of \<open>0, ..., 3\<close>.
\<close>

theorem C2_multiple_choice_contribution:
  assumes "i < length qs"
    and "type_q (qs ! i) = MULTIPLE_CHOICE"
  shows "totalPointsOf (take (Suc i) qs) as - totalPointsOf (take i qs) as =
           (if answerAt as i = indexValue (correctAnswerIndex (qs ! i)) then 1 else 0)
       \<and> (\<forall>c. correctAnswerIndex (qs ! i) = Some c \<and> 0 \<le> c \<and> c \<le> 3 \<and>
              answerAt as i = initialAnswer (qs ! i) \<longrightarrow>
            totalPointsOf (take (Suc i) qs) as - totalPointsOf (take i qs) as = 0)"
proof -
  have step: "totalPointsOf (take (Suc i) qs) as - totalPointsOf (take i qs) as =
              questionPoints (qs ! i) (answerAt as i)"
    using totalPointsOf_take_Suc [OF assms(1), of as] by simp
  have pts: "questionPoints (qs ! i) (answerAt as i) =
             (if answerAt as i = indexValue (correctAnswerIndex (qs ! i)) then 1 else 0)"
    using assms(2) by (simp add: questionPoints_def strictEqIndex_indexValue)
  have sentinel: "initialAnswer (qs ! i) \<noteq> indexValue (Some c)" if "0 \<le> c" for c
    using that assms(2) by (simp add: initialAnswer_def indexValue_def)
  show ?thesis
    using step pts sentinel by auto
qed

text \<open>
  C2 at the second question of the example session, left unanswered: the key is \<open>1\<close>,
  the slot holds the sentinel, the contribution is \<open>0\<close>. At the first question the
  stored answer is the key and the contribution is \<open>1\<close>.
\<close>

theorem C2_witness:
  "(1::nat) < length (questions (quizState exampleQuiz))
   \<and> type_q (questions (quizState exampleQuiz) ! 1) = MULTIPLE_CHOICE
   \<and> correctAnswerIndex (questions (quizState exampleQuiz) ! 1) = Some 1
   \<and> answerAt (userAnswers (quizState (handleStartQuiz (Some (questions (quizState exampleQuiz))) 0 initialApp))) 1
       = initialAnswer (questions (quizState exampleQuiz) ! 1)
   \<and> totalPointsOf (take (Suc 1) (questions (quizState exampleQuiz)))
        (userAnswers (quizState (handleStartQuiz (Some (questions (quizState exampleQuiz))) 0 initialApp)))
       - totalPointsOf (take 1 (questions (quizState exampleQuiz)))
        (userAnswers (quizState (handleStartQuiz (Some (questions (quizState exampleQuiz))) 0 initialApp)))
       = 0
   \<and> type_q (questions (quizState exampleQuiz) ! 0) = MULTIPLE_CHOICE
   \<and> answerAt (userAnswers (quizState exampleQuiz)) 0 =
       indexValue (correctAnswerIndex (questions (quizState exampleQuiz) ! 0))
   \<and> totalPointsOf (take (Suc 0) (questions (quizState exampleQuiz))) (userAnswers (quizState exampleQuiz))
       - totalPointsOf (take 0 (questions (quizState exampleQuiz))) (userAnswers (quizState exampleQuiz))
       = 1"
proof -
  let ?qs = "questions (quizState exampleQuiz)"
  let ?as = "userAnswers (quizState (handleStartQuiz (Some ?qs) 0 initialApp))"
  have h1: "1 < length ?qs" by (simp add: exampleQuiz_def handleStartQuiz_def)
  have h2: "type_q (?qs ! 1) = MULTIPLE_CHOICE"
    by (simp add: exampleQuiz_def handleStartQuiz_def mcQuestion_def)
  have h3: "correctAnswerIndex (?qs ! 1) = Some 1"
    by (simp add: exampleQuiz_def handleStartQuiz_def mcQuestion_def)
  have h4: "answerAt ?as 1 = initialAnswer (?qs ! 1)"
    by (simp add: exampleQuiz_def handleStartQuiz_def answerAt_def)
  have g1: "0 < length ?qs" by (simp add: exampleQuiz_def handleStartQuiz_def)
  have g2: "type_q (?qs ! 0) = MULTIPLE_CHOICE"
    by (simp add: exampleQuiz_def handleStartQuiz_def mcQuestion_def)
  have g3: "answerAt (userAnswers (quizState exampleQuiz)) 0 = indexValue (correctAnswerIndex (?qs ! 0))"
    by (simp add: exampleQuiz_def handleStartQuiz_def mcQuestion_def answerAt_def indexValue_def)
  show ?thesis
    using C2_multiple_choice_contribution [OF h1 h2, of ?as]
      C2_multiple_choice_contribution [OF g1 g2, of "userAnswers (quizState exampleQuiz)"]
      h1 h2 h3 h4 g2 g3 by simp
qed

subsection \<open>C3: the final score\<close>




subsection \<open>C4: no question at all\<close>



subsection \<open>C5: the integrity violation\<close>

text \<open>
  C5. When the document becomes hidden while the quiz view is shown, the session is
  complete at once: the summary is shown, \<open>isComplete\<close> is set, the reason is
  \<open>cheat\<close>, and the questions and answers stay as they were. The score is the one
  computed from the questions and the answers stored at that moment: the sum of the
  contributions of all positions, divided by the number of questions, times ten, through
  \<^verbatim>\<open>toFixed(2)\<close>; it is the score a normal submission of the same answers gets. Any later
  visibility event, hidden or not, leaves that state unchanged.
\<close>

theorem C5_integrity_violation_once:
  assumes "view s = view_quiz"
  shows "view (handleVisibilityChange True now s) = view_summary
       \<and> isComplete (quizState (handleVisibilityChange True now s))
       \<and> submissionReason (quizState (handleVisibilityChange True now s)) = Some reason_cheat
       \<and> score (quizState (handleVisibilityChange True now s)) =
           finalScoreOf (questions (quizState s)) (userAnswers (quizState s))
       \<and> score (quizState (handleVisibilityChange True now s)) =
           parseFloat_toFixed2 (js_times10 (js_div
             (\<Sum>i<length (questions (quizState s)).
                questionPoints (questions (quizState s) ! i) (answerAt (userAnswers (quizState s)) i))
             (of_nat (length (questions (quizState s))))))
       \<and> score (quizState (handleVisibilityChange True now s)) =
           score (quizState (finishQuiz reason_normal now s))
       \<and> questions (quizState (handleVisibilityChange True now s)) = questions (quizState s)
       \<and> userAnswers (quizState (handleVisibilityChange True now s)) = userAnswers (quizState s)
       \<and> (\<forall>hidden later.
            handleVisibilityChange hidden later (handleVisibilityChange True now s) =
            handleVisibilityChange True now s)"
proof -
  have "finalScoreOf (questions (quizState s)) (userAnswers (quizState s)) =
        parseFloat_toFixed2 (js_times10 (js_div
          (\<Sum>i<length (questions (quizState s)).
             questionPoints (questions (quizState s) ! i) (answerAt (userAnswers (quizState s)) i))
          (of_nat (length (questions (quizState s))))))"
    by (simp add: finalScoreOf_def Let_def totalPointsOf_sum)
  then show ?thesis
    using assms by (simp add: handleVisibilityChange_def finishQuiz_def Let_def)
qed

text \<open>
  C5 on the example session, which is in the quiz view with one sub-slot still open and
  one choice wrong: the violation ends it with the score \<open>6.25\<close> of its \<open>2.5\<close> points, and
  a second event changes nothing.
\<close>

theorem C5_witness:
  "view exampleQuiz = view_quiz
   \<and> view (handleVisibilityChange True 2000 exampleQuiz) = view_summary
   \<and> submissionReason (quizState (handleVisibilityChange True 2000 exampleQuiz)) = Some reason_cheat
   \<and> score (quizState (handleVisibilityChange True 2000 exampleQuiz)) = Fin (25 / 4)
   \<and> userAnswers (quizState (handleVisibilityChange True 2000 exampleQuiz)) =
       [Num 2, Num 3, Arr [Val True, Val False, Val True, Val False],
        Arr [Val True, Val True, Undef, Val False]]
   \<and> handleVisibilityChange True 3000 (handleVisibilityChange True 2000 exampleQuiz) =
       handleVisibilityChange True 2000 exampleQuiz"
proof -
  have h: "view exampleQuiz = view_quiz" by (simp add: exampleQuiz_def handleStartQuiz_def)
  have a: "userAnswers (quizState exampleQuiz) =
           [Num 2, Num 3, Arr [Val True, Val False, Val True, Val False],
            Arr [Val True, Val True, Undef, Val False]]"
    by (simp add: exampleQuiz_def)
  show ?thesis
    using C5_integrity_violation_once [OF h, of 2000] h a exampleQuiz_finalScore by simp
qed

subsection \<open>C6: reset\<close>

text \<open>
  C6 as stated does not hold: \<^verbatim>\<open>resetApp\<close> only switches the view. After the one-question
  quiz is finished and reset, its question and its answer are still stored.
\<close>

theorem C6_counterexample:
  "view (finishQuiz reason_normal 2000 singleQuiz) = view_summary
   \<and> questions (quizState (resetApp (finishQuiz reason_normal 2000 singleQuiz))) = [mcQuestion 2]
   \<and> userAnswers (quizState (resetApp (finishQuiz reason_normal 2000 singleQuiz))) = [Num (- 1)]
   \<and> questions (quizState (resetApp (finishQuiz reason_normal 2000 singleQuiz))) \<noteq> []"
  by (simp add: singleQuiz_def handler_defs initialAnswer_def mcQuestion_def Let_def)

text \<open>
  C6, amended. Reset shows the setup view and keeps the configuration; it leaves the
  stored session (questions, answers, score) as it is. The session is replaced, as a
  whole, by the next successful start: the new session is the same whatever was stored
  before, its questions are the generated ones and every answer is unanswered.
\<close>

theorem C6_reset_keeps_session:
  "view (resetApp s) = view_setup
   \<and> config (resetApp s) = config s
   \<and> quizState (resetApp s) = quizState s
   \<and> quizState (handleStartQuiz (Some qs) now (resetApp s)) =
       quizState (handleStartQuiz (Some qs) now s0)
   \<and> questions (quizState (handleStartQuiz (Some qs) now (resetApp s))) = qs
   \<and> userAnswers (quizState (handleStartQuiz (Some qs) now (resetApp s))) = map initialAnswer qs"
  by (simp add: resetApp_def handleStartQuiz_def)

subsection \<open>C7: no recording once complete\<close>

text \<open>
  C7. Once \<open>isComplete\<close> is set, selecting an option or a truth value changes nothing
  (answers, current index, view and everything else are the same state) and the
  true/false handler returns normally.
\<close>

theorem C7_recording_after_complete:
  assumes "isComplete (quizState s)"
  shows "handleMCSelect optionIndex s = s \<and> handleTFSelect propIndex v s = Inr s"
  using assms by (simp add: handleMCSelect_def handleTFSelect_def)

text \<open>
  C7 on the example session after an integrity violation ended it.
\<close>

theorem C7_witness:
  "isComplete (quizState (finishQuiz reason_cheat 2000 exampleQuiz))
   \<and> handleMCSelect 0 (finishQuiz reason_cheat 2000 exampleQuiz) = finishQuiz reason_cheat 2000 exampleQuiz
   \<and> handleTFSelect 1 True (finishQuiz reason_cheat 2000 exampleQuiz) =
       Inr (finishQuiz reason_cheat 2000 exampleQuiz)"
proof -
  have h: "isComplete (quizState (finishQuiz reason_cheat 2000 exampleQuiz))"
    by (simp add: finishQuiz_def Let_def)
  show ?thesis using C7_recording_after_complete [OF h] h by simp
qed

subsection \<open>C8: setting one proposition\<close>

text \<open>
  C8. While the session is not complete and the question in focus has an answer array of
  four sub-slots, selecting a truth value for proposition \<open>propIndex < 4\<close> returns
  normally, writes that sub-slot and no other, and leaves the other three sub-slots, the
  answers of all other questions, the questions, the current index, the view, the
  configuration and the score unchanged. (The handler addresses the question in focus.)
\<close>

theorem C8_setProposition_frame:
  assumes "\<not> isComplete (quizState s)"
    and "currentQuestionIndex (quizState s) < length (userAnswers (quizState s))"
    and "userAnswers (quizState s) ! currentQuestionIndex (quizState s) = Arr us"
    and "length us = 4" and "Hole \<notin> set us"
    and "propIndex < 4"
  shows "\<exists>s' us'. handleTFSelect propIndex v s = Inr s'
       \<and> view s' = view s \<and> config s' = config s
       \<and> currentQuestionIndex (quizState s') = currentQuestionIndex (quizState s)
       \<and> isComplete (quizState s') = isComplete (quizState s)
       \<and> questions (quizState s') = questions (quizState s)
       \<and> score (quizState s') = score (quizState s)
       \<and> length (userAnswers (quizState s')) = length (userAnswers (quizState s))
       \<and> (\<forall>j<length (userAnswers (quizState s)). j \<noteq> currentQuestionIndex (quizState s) \<longrightarrow>
            userAnswers (quizState s') ! j = userAnswers (quizState s) ! j)
       \<and> userAnswers (quizState s') ! currentQuestionIndex (quizState s) = Arr us'
       \<and> length us' = 4 \<and> us' ! propIndex = Val v
       \<and> (\<forall>k<4. k \<noteq> propIndex \<longrightarrow> us' ! k = us ! k)"
proof -
  let ?i = "currentQuestionIndex (quizState s)"
  let ?us' = "us[propIndex := Val v]"
  let ?s' = "s\<lparr>quizState := (quizState s)\<lparr>userAnswers := (userAnswers (quizState s))[?i := Arr ?us']\<rparr>\<rparr>"
  have "handleTFSelect propIndex v s = Inr ?s'"
    using assms by (simp add: handleTFSelect_def answerAt_def arraySet_def spreadTF_no_hole Let_def)
  moreover have "userAnswers (quizState ?s') ! ?i = Arr ?us'" using assms(2) by simp
  moreover have "length ?us' = 4 \<and> ?us' ! propIndex = Val v \<and> (\<forall>k<4. k \<noteq> propIndex \<longrightarrow> ?us' ! k = us ! k)"
    using assms(4,6) by simp
  ultimately show ?thesis by (intro exI [of _ ?s'] exI [of _ ?us']) simp
qed

text \<open>
  C8 on the example session: the second sub-slot of the third question goes from
  \<open>false\<close> to \<open>true\<close>.
\<close>

theorem C8_witness:
  "\<not> isComplete (quizState exampleQuiz)
   \<and> currentQuestionIndex (quizState exampleQuiz) = 2
   \<and> userAnswers (quizState exampleQuiz) ! 2 = Arr [Val True, Val False, Val True, Val False]
   \<and> (\<exists>s' us'. handleTFSelect 1 True exampleQuiz = Inr s'
        \<and> view s' = view_quiz
        \<and> currentQuestionIndex (quizState s') = 2
        \<and> userAnswers (quizState s') ! 0 = Num 2
        \<and> userAnswers (quizState s') ! 2 = Arr us'
        \<and> us' ! 1 = Val True \<and> us' ! 0 = Val True \<and> us' ! 2 = Val True \<and> us' ! 3 = Val False)"
proof -
  let ?us = "[Val True, Val False, Val True, Val False]"
  have h1: "\<not> isComplete (quizState exampleQuiz)" by (simp add: exampleQuiz_def handleStartQuiz_def)
  have c: "currentQuestionIndex (quizState exampleQuiz) = 2" by (simp add: exampleQuiz_def)
  have v: "view exampleQuiz = view_quiz" by (simp add: exampleQuiz_def handleStartQuiz_def)
  have a: "userAnswers (quizState exampleQuiz) =
           [Num 2, Num 3, Arr ?us, Arr [Val True, Val True, Undef, Val False]]"
    by (simp add: exampleQuiz_def)
  have h2: "currentQuestionIndex (quizState exampleQuiz) < length (userAnswers (quizState exampleQuiz))"
    by (simp add: a c)
  have h3: "userAnswers (quizState exampleQuiz) ! currentQuestionIndex (quizState exampleQuiz) = Arr ?us"
    by (simp add: a c)
  have h4: "length ?us = 4" by simp
  have h5: "Hole \<notin> set ?us" by simp
  have h6: "(1::nat) < 4" by simp
  from C8_setProposition_frame [OF h1 h2 h3 h4 h5 h6, of True]
  obtain s' us' where r: "handleTFSelect 1 True exampleQuiz = Inr s'"
    "view s' = view exampleQuiz"
    "currentQuestionIndex (quizState s') = currentQuestionIndex (quizState exampleQuiz)"
    "\<forall>j<length (userAnswers (quizState exampleQuiz)). j \<noteq> currentQuestionIndex (quizState exampleQuiz) \<longrightarrow>
            userAnswers (quizState s') ! j = userAnswers (quizState exampleQuiz) ! j"
    "userAnswers (quizState s') ! currentQuestionIndex (quizState exampleQuiz) = Arr us'"
    "us' ! 1 = Val True" "\<forall>k<4. k \<noteq> 1 \<longrightarrow> us' ! k = ?us ! k"
    by blast
  have "userAnswers (quizState s') ! 0 = Num 2" using r(4) by (simp add: a c)
  moreover have "us' ! 0 = Val True \<and> us' ! 2 = Val True \<and> us' ! 3 = Val False"
    using r(7) by simp
  ultimately show ?thesis using r h1 c v a by auto
qed

subsection \<open>C9: previous, then next\<close>

text \<open>
  C9 as stated, for every session in progress, does not hold. On the first question
  "previous" does nothing, and in a quiz of one question the first question is the last
  one, where "next" submits: the pair ends the session.
\<close>

theorem C9_counterexample:
  "view singleQuiz = view_quiz
   \<and> currentQuestionIndex (quizState singleQuiz) = 0
   \<and> handlePrevQuestion singleQuiz = singleQuiz
   \<and> view (handleNextQuestion 2000 (handlePrevQuestion singleQuiz)) = view_summary
   \<and> isComplete (quizState (handleNextQuestion 2000 (handlePrevQuestion singleQuiz)))
   \<and> view (handleNextQuestion 2000 (handlePrevQuestion singleQuiz)) \<noteq> view singleQuiz"
  by (simp add: singleQuiz_def handler_defs Let_def)

text \<open>
  C9, amended. "Previous" decrements the current index when it is positive and does
  nothing otherwise; it never changes the view, the answers, \<open>isComplete\<close> or the score.
  When the current index is positive and a position of the question list, "next" after
  "previous" gives back the state it started from. When the quiz has at least two
  questions and the current index is a position of the list, "previous" then "next",
  repeated any number of times, leaves the view, the answers, \<open>isComplete\<close> and the score
  unchanged.
\<close>

theorem C9_prev_then_next:
  "handlePrevQuestion s =
     (if 0 < currentQuestionIndex (quizState s)
      then s\<lparr>quizState := (quizState s)\<lparr>currentQuestionIndex := currentQuestionIndex (quizState s) - 1\<rparr>\<rparr>
      else s)
   \<and> view (handlePrevQuestion s) = view s
   \<and> userAnswers (quizState (handlePrevQuestion s)) = userAnswers (quizState s)
   \<and> isComplete (quizState (handlePrevQuestion s)) = isComplete (quizState s)
   \<and> score (quizState (handlePrevQuestion s)) = score (quizState s)
   \<and> (0 < currentQuestionIndex (quizState s) \<and>
      currentQuestionIndex (quizState s) < length (questions (quizState s)) \<longrightarrow>
        handleNextQuestion now (handlePrevQuestion s) = s)
   \<and> (2 \<le> length (questions (quizState s)) \<and>
      currentQuestionIndex (quizState s) < length (questions (quizState s)) \<longrightarrow>
        (\<forall>n. view (((\<lambda>t. handleNextQuestion now (handlePrevQuestion t)) ^^ n) s) = view s
          \<and> userAnswers (quizState (((\<lambda>t. handleNextQuestion now (handlePrevQuestion t)) ^^ n) s)) =
              userAnswers (quizState s)
          \<and> isComplete (quizState (((\<lambda>t. handleNextQuestion now (handlePrevQuestion t)) ^^ n) s)) =
              isComplete (quizState s)
          \<and> score (quizState (((\<lambda>t. handleNextQuestion now (handlePrevQuestion t)) ^^ n) s)) =
              score (quizState s)))"
proof -
  have restore: "handleNextQuestion now (handlePrevQuestion s) = s"
    if "0 < currentQuestionIndex (quizState s)"
      and "currentQuestionIndex (quizState s) < length (questions (quizState s))"
    using that by (simp add: handleNextQuestion_def handlePrevQuestion_def)
  show ?thesis
    using restore by (simp add: prev_next_funpow) (simp add: handlePrevQuestion_def)
qed

text \<open>
  C9, amended, on the example session (third of four questions in focus).
\<close>

theorem C9_witness:
  "0 < currentQuestionIndex (quizState exampleQuiz)
   \<and> currentQuestionIndex (quizState exampleQuiz) < length (questions (quizState exampleQuiz))
   \<and> 2 \<le> length (questions (quizState exampleQuiz))
   \<and> currentQuestionIndex (quizState (handlePrevQuestion exampleQuiz)) = 1
   \<and> handleNextQuestion 2000 (handlePrevQuestion exampleQuiz) = exampleQuiz
   \<and> view (((\<lambda>t. handleNextQuestion 2000 (handlePrevQuestion t)) ^^ 3) exampleQuiz) = view_quiz
   \<and> userAnswers (quizState (((\<lambda>t. handleNextQuestion 2000 (handlePrevQuestion t)) ^^ 3) exampleQuiz)) =
       userAnswers (quizState exampleQuiz)"
proof -
  have c: "currentQuestionIndex (quizState exampleQuiz) = 2" by (simp add: exampleQuiz_def)
  have l: "length (questions (quizState exampleQuiz)) = 4"
    by (simp add: exampleQuiz_def handleStartQuiz_def)
  have v: "view exampleQuiz = view_quiz" by (simp add: exampleQuiz_def handleStartQuiz_def)
  have h1: "0 < currentQuestionIndex (quizState exampleQuiz)
            \<and> currentQuestionIndex (quizState exampleQuiz) < length (questions (quizState exampleQuiz))"
    by (simp add: c l)
  have h2: "2 \<le> length (questions (quizState exampleQuiz))
            \<and> currentQuestionIndex (quizState exampleQuiz) < length (questions (quizState exampleQuiz))"
    by (simp add: c l)
  note t = C9_prev_then_next [of exampleQuiz 2000]
  have p: "currentQuestionIndex (quizState (handlePrevQuestion exampleQuiz)) = 1"
    using t c by simp
  have r: "handleNextQuestion 2000 (handlePrevQuestion exampleQuiz) = exampleQuiz"
    using t h1 by blast
  have i: "view (((\<lambda>t. handleNextQuestion 2000 (handlePrevQuestion t)) ^^ 3) exampleQuiz) = view exampleQuiz
      \<and> userAnswers (quizState (((\<lambda>t. handleNextQuestion 2000 (handlePrevQuestion t)) ^^ 3) exampleQuiz)) =
        userAnswers (quizState exampleQuiz)"
    using t h2 by blast
  show ?thesis using h1 h2 p r i v by simp
qed

subsection \<open>C10: a true/false question without its key\<close>

text \<open>
  C10 says that a true/false question whose key is missing contributes nothing. In the
  code the missing key is replaced by the empty array, every \<^verbatim>\<open>correctTF[i]\<close> is then
  \<^verbatim>\<open>undefined\<close>, and a sub-slot that was never answered is \<^verbatim>\<open>undefined\<close> too: the
  comparison succeeds. A quiz of one such question, finished without any answer, gets the
  full score \<open>10\<close>. (That an answer which is not an array contributes nothing is
  \<open>questionPoints_TF_not_array\<close>.)
\<close>

theorem C10_missing_key_gives_full_marks:
  "score (quizState (finishQuiz reason now
     (handleStartQuiz (Some [q\<lparr>type_q := TRUE_FALSE, correctAnswersTF := None\<rparr>]) t s))) = Fin 10"
proof -
  have f: "\<lfloor>2001 / 2 :: rat\<rfloor> = 1000" by (simp add: floor_eq_iff)
  show ?thesis
    by (simp add: handler_defs scoring_defs Let_def toDouble_1 toDouble_10 f)
qed

end
